theory Spec2Isabelle
  imports Main "HOL-Library.AList"
begin

section \<open>JavaScript values, objects and errors\<close>

text \<open>
  The values that flow through \<^verbatim>\<open>src/services/authService.js\<close>: profile fields are
  primitive values, the sentinel \<^verbatim>\<open>firestore.FieldValue.serverTimestamp()\<close> and the
  server times read back from a document. An object is the list of its own properties
  in insertion order.
\<close>

datatype jsval =
    JUndefined
  | JNull
  | JBool bool
  | JNum int
  | JStr string
  | JServerTimestamp
  | JTimestamp nat

type_synonym jsobj = "(string \<times> jsval) list"

text \<open>Truthiness, as \<^verbatim>\<open>||\<close>, \<^verbatim>\<open>!\<close> and \<^verbatim>\<open>if\<close> see it.\<close>

fun truthy :: "jsval \<Rightarrow> bool" where
  "truthy JUndefined = False"
| "truthy JNull = False"
| "truthy (JBool b) = b"
| "truthy (JNum n) = (n \<noteq> 0)"
| "truthy (JStr s) = (s \<noteq> [])"
| "truthy JServerTimestamp = True"
| "truthy (JTimestamp t) = True"

text \<open>\<^verbatim>\<open>a || b\<close>\<close>

definition or_else :: "jsval \<Rightarrow> jsval \<Rightarrow> jsval" where
  "or_else a b = (if truthy a then a else b)"

text \<open>\<^verbatim>\<open>obj.key\<close>: a property that is not there reads as \<^verbatim>\<open>undefined\<close>.\<close>

definition get_prop :: "jsobj \<Rightarrow> string \<Rightarrow> jsval" where
  "get_prop obj k = (case map_of obj k of None \<Rightarrow> JUndefined | Some v \<Rightarrow> v)"

text \<open>
  \<^verbatim>\<open>{...base, ...src}\<close>: the properties of \<open>src\<close> are assigned in order; a key that is
  already there keeps its place and takes the new value, a new key goes to the end.
\<close>

fun spread :: "jsobj \<Rightarrow> jsobj \<Rightarrow> jsobj" where
  "spread base [] = base"
| "spread base ((k, v) # ps) = spread (AList.update k v base) ps"

text \<open>
  A thrown value. \<open>Error m\<close> is \<^verbatim>\<open>new Error(m)\<close> raised by the application itself,
  \<open>TypeError\<close> is a property read on \<^verbatim>\<open>null\<close>, and \<open>Rejected c\<close> is the rejection of a
  promise of an external collaborator (the Firebase SDK, AsyncStorage, \<^verbatim>\<open>JSON.parse\<close>)
  with code \<open>c\<close>.
\<close>

datatype js_error = Error string | TypeError | Rejected string

fun message :: "js_error \<Rightarrow> string" where
  "message (Error m) = m"
| "message TypeError = ''Cannot read property of null''"
| "message (Rejected c) = c"

text \<open>The error kinds of the specification, as the code raises them.\<close>

definition NotAuthenticated :: js_error where
  "NotAuthenticated = Error ''No authenticated user found''"

definition ReauthenticationFailed :: js_error where
  "ReauthenticationFailed = Error ''Failed to reauthenticate user''"

section \<open>The world: remote backend, local storage, and a log of external calls\<close>

text \<open>The identity object of the identity provider; \<^verbatim>\<open>email\<close> may be \<^verbatim>\<open>null\<close>.\<close>

record firebase_user =
  user_uid :: string
  user_email :: "string option"

definition email_val :: "firebase_user \<Rightarrow> jsval" where
  "email_val u = (case user_email u of None \<Rightarrow> JNull | Some e \<Rightarrow> JStr e)"

text \<open>
  Every call that leaves the application is logged, in order. The log is ghost state:
  no operation reads it.
\<close>

datatype call =
    CreateUser string string
  | SignIn string string
  | SignOut
  | SendPasswordResetEmail string
  | GetIdToken string
  | Reauthenticate string string string
  | UpdatePassword string string
  | DocSet string jsobj
  | DocUpdate string jsobj
  | DocGet string
  | SetItem string string
  | GetItem string
  | RemoveItem string

text \<open>
  \<open>remote\<close> is the state of the hosted backend (identity provider and the
  \<^verbatim>\<open>users\<close> collection), of a type the application knows nothing about;
  \<open>storage\<close> is AsyncStorage.
\<close>

record 'b world =
  remote :: 'b
  storage :: "string \<rightharpoonup> string"
  calls :: "call list"

text \<open>
  The external collaborators are not part of the repository, so their behaviour is a
  parameter: any function of the remote state, returning a result or a rejection and
  the next remote state. \<open>storage_error\<close> tells which AsyncStorage calls reject.
  \<^verbatim>\<open>JSON.stringify\<close> and \<^verbatim>\<open>JSON.parse\<close> belong to the JavaScript engine; \<open>JSON_parse\<close>
  returns \<open>None\<close> for the text \<^verbatim>\<open>null\<close>.
\<close>

record 'b env =
  auth_currentUser :: "'b \<Rightarrow> firebase_user option"
  createUserWithEmailAndPassword :: "string \<Rightarrow> string \<Rightarrow> 'b \<Rightarrow> (js_error + firebase_user) \<times> 'b"
  signInWithEmailAndPassword :: "string \<Rightarrow> string \<Rightarrow> 'b \<Rightarrow> (js_error + firebase_user) \<times> 'b"
  signOut :: "'b \<Rightarrow> (js_error + unit) \<times> 'b"
  sendPasswordResetEmail :: "string \<Rightarrow> 'b \<Rightarrow> (js_error + unit) \<times> 'b"
  getIdToken :: "firebase_user \<Rightarrow> 'b \<Rightarrow> (js_error + string) \<times> 'b"
  reauthenticateWithCredential :: "firebase_user \<Rightarrow> string \<times> string \<Rightarrow> 'b \<Rightarrow> (js_error + unit) \<times> 'b"
  updatePassword :: "firebase_user \<Rightarrow> string \<Rightarrow> 'b \<Rightarrow> (js_error + unit) \<times> 'b"
  doc_set :: "string \<Rightarrow> jsobj \<Rightarrow> 'b \<Rightarrow> (js_error + unit) \<times> 'b"
  doc_update :: "string \<Rightarrow> jsobj \<Rightarrow> 'b \<Rightarrow> (js_error + unit) \<times> 'b"
  doc_get :: "string \<Rightarrow> 'b \<Rightarrow> (js_error + jsobj option) \<times> 'b"
  storage_error :: "call \<Rightarrow> js_error option"
  JSON_stringify :: "jsobj \<Rightarrow> string"
  JSON_parse :: "string \<Rightarrow> js_error + jsobj option"

section \<open>Asynchronous code with exceptions\<close>

text \<open>
  An \<^verbatim>\<open>async\<close> function is a function of the world that returns a value or a thrown
  error, and the world it leaves behind. Operations run one at a time
  (single-threaded, each awaited before the next).
\<close>

type_synonym ('a, 'b) prog = "'b world \<Rightarrow> (js_error + 'a) \<times> 'b world"

definition ret :: "'a \<Rightarrow> ('a, 'b) prog" where
  "ret x w = (Inr x, w)"

definition throw :: "js_error \<Rightarrow> ('a, 'b) prog" where
  "throw e w = (Inl e, w)"

text \<open>\<^verbatim>\<open>const x = await m; k(x)\<close>: an error of \<open>m\<close> skips \<open>k\<close>.\<close>

definition seq :: "('a, 'b) prog \<Rightarrow> ('a \<Rightarrow> ('c, 'b) prog) \<Rightarrow> ('c, 'b) prog" where
  "seq m k w = (case m w of (Inl e, w') \<Rightarrow> (Inl e, w') | (Inr x, w') \<Rightarrow> k x w')"

text \<open>\<^verbatim>\<open>try { m } catch (error) { h(error) }\<close>\<close>

definition try_catch :: "('a, 'b) prog \<Rightarrow> (js_error \<Rightarrow> ('a, 'b) prog) \<Rightarrow> ('a, 'b) prog" where
  "try_catch m h w = (case m w of (Inl e, w') \<Rightarrow> h e w' | (Inr x, w') \<Rightarrow> (Inr x, w'))"

text \<open>A call of the SDK: logged, then answered by the collaborator.\<close>

definition sdk :: "call \<Rightarrow> ('b \<Rightarrow> (js_error + 'a) \<times> 'b) \<Rightarrow> ('a, 'b) prog" where
  "sdk c f w = (case f (remote w) of (r, b) \<Rightarrow> (r, w\<lparr>remote := b, calls := calls w @ [c]\<rparr>))"

text \<open>\<^verbatim>\<open>auth().currentUser\<close>: a synchronous read of the live identity.\<close>

definition currentUser_now :: "'b env \<Rightarrow> (firebase_user option, 'b) prog" where
  "currentUser_now env w = (Inr (auth_currentUser env (remote w)), w)"

text \<open>AsyncStorage: a rejected call leaves the store as it was.\<close>

definition setItem :: "'b env \<Rightarrow> string \<Rightarrow> string \<Rightarrow> (unit, 'b) prog" where
  "setItem env k v w =
     (case storage_error env (SetItem k v) of
        Some e \<Rightarrow> (Inl e, w\<lparr>calls := calls w @ [SetItem k v]\<rparr>)
      | None \<Rightarrow> (Inr (), w\<lparr>storage := (storage w)(k \<mapsto> v), calls := calls w @ [SetItem k v]\<rparr>))"

definition getItem :: "'b env \<Rightarrow> string \<Rightarrow> (string option, 'b) prog" where
  "getItem env k w =
     (case storage_error env (GetItem k) of
        Some e \<Rightarrow> (Inl e, w\<lparr>calls := calls w @ [GetItem k]\<rparr>)
      | None \<Rightarrow> (Inr (storage w k), w\<lparr>calls := calls w @ [GetItem k]\<rparr>))"

definition removeItem :: "'b env \<Rightarrow> string \<Rightarrow> (unit, 'b) prog" where
  "removeItem env k w =
     (case storage_error env (RemoveItem k) of
        Some e \<Rightarrow> (Inl e, w\<lparr>calls := calls w @ [RemoveItem k]\<rparr>)
      | None \<Rightarrow> (Inr (), w\<lparr>storage := (storage w)(k := None), calls := calls w @ [RemoveItem k]\<rparr>))"

text \<open>\<^verbatim>\<open>JSON.parse(s)\<close> may throw.\<close>

definition parse :: "'b env \<Rightarrow> string \<Rightarrow> (jsobj option, 'b) prog" where
  "parse env s w = (JSON_parse env s, w)"

section \<open>\<^verbatim>\<open>src/services/authService.js\<close>\<close>

definition USER_DATA_KEY :: string where
  "USER_DATA_KEY = ''@GI Tracker:userData''"

definition AUTH_TOKEN_KEY :: string where
  "AUTH_TOKEN_KEY = ''@GI Tracker:authToken''"

text \<open>The profile document that \<^verbatim>\<open>register\<close> writes.\<close>

definition register_doc :: "string \<Rightarrow> jsobj \<Rightarrow> jsobj" where
  "register_doc email userData =
     [(''email'', JStr email),
      (''name'', or_else (get_prop userData ''name'') (JStr '''')),
      (''birthdate'', or_else (get_prop userData ''birthdate'') JNull),
      (''diabetesType'', or_else (get_prop userData ''diabetesType'') (JStr '''')),
      (''createdAt'', JServerTimestamp),
      (''lastLoginAt'', JServerTimestamp)]"

definition register :: "'b env \<Rightarrow> string \<Rightarrow> string \<Rightarrow> jsobj \<Rightarrow> (firebase_user, 'b) prog" where
  "register env email password userData =
     try_catch
       (seq (sdk (CreateUser email password) (createUserWithEmailAndPassword env email password))
          (\<lambda>user.
        seq (sdk (DocSet (user_uid user) (register_doc email userData))
               (doc_set env (user_uid user) (register_doc email userData)))
          (\<lambda>_.
        seq (setItem env USER_DATA_KEY
               (JSON_stringify env
                  (spread [(''uid'', JStr (user_uid user)), (''email'', email_val user)] userData)))
          (\<lambda>_.
        ret user))))
       (\<lambda>error. throw error)"

definition login :: "'b env \<Rightarrow> string \<Rightarrow> string \<Rightarrow> (firebase_user, 'b) prog" where
  "login env email password =
     try_catch
       (seq (sdk (SignIn email password) (signInWithEmailAndPassword env email password))
          (\<lambda>user.
        seq (sdk (DocUpdate (user_uid user) [(''lastLoginAt'', JServerTimestamp)])
               (doc_update env (user_uid user) [(''lastLoginAt'', JServerTimestamp)]))
          (\<lambda>_.
        seq (sdk (DocGet (user_uid user)) (doc_get env (user_uid user)))
          (\<lambda>userDoc.
        seq (case userDoc of
               Some userData \<Rightarrow>
                 setItem env USER_DATA_KEY
                   (JSON_stringify env
                      [(''uid'', JStr (user_uid user)),
                       (''email'', email_val user),
                       (''name'', get_prop userData ''name''),
                       (''birthdate'', get_prop userData ''birthdate''),
                       (''diabetesType'', get_prop userData ''diabetesType'')])
             | None \<Rightarrow> ret ())
          (\<lambda>_.
        seq (sdk (GetIdToken (user_uid user)) (getIdToken env user))
          (\<lambda>token.
        seq (setItem env AUTH_TOKEN_KEY token)
          (\<lambda>_.
        ret user)))))))
       (\<lambda>error. throw error)"

definition logout :: "'b env \<Rightarrow> (unit, 'b) prog" where
  "logout env =
     try_catch
       (seq (sdk SignOut (signOut env))
          (\<lambda>_.
        seq (removeItem env USER_DATA_KEY)
          (\<lambda>_.
        removeItem env AUTH_TOKEN_KEY)))
       (\<lambda>error. throw error)"

definition isAuthenticated :: "'b env \<Rightarrow> (bool, 'b) prog" where
  "isAuthenticated env =
     try_catch
       (seq (currentUser_now env)
          (\<lambda>currentUser.
        case currentUser of
          Some _ \<Rightarrow> ret True
        | None \<Rightarrow>
            seq (getItem env AUTH_TOKEN_KEY)
              (\<lambda>token.
            ret (token \<noteq> None))))
       (\<lambda>error. ret False)"

text \<open>
  \<^verbatim>\<open>getCurrentUser\<close>: the first \<^verbatim>\<open>return\<close> (live identity and an existing document) is
  the value \<open>Some\<close> of the first step; otherwise control falls through to the cache.
\<close>

definition getCurrentUser :: "'b env \<Rightarrow> (jsobj option, 'b) prog" where
  "getCurrentUser env =
     try_catch
       (seq (currentUser_now env)
          (\<lambda>currentUser.
        seq (case currentUser of
               Some cu \<Rightarrow>
                 seq (sdk (DocGet (user_uid cu)) (doc_get env (user_uid cu)))
                   (\<lambda>userDoc.
                 case userDoc of
                   Some d \<Rightarrow>
                     ret (Some (spread [(''uid'', JStr (user_uid cu)), (''email'', email_val cu)] d))
                 | None \<Rightarrow> ret None)
             | None \<Rightarrow> ret None)
          (\<lambda>live.
        case live of
          Some session \<Rightarrow> ret (Some session)
        | None \<Rightarrow>
            seq (getItem env USER_DATA_KEY)
              (\<lambda>userDataString.
            case userDataString of
              Some s \<Rightarrow> (if s \<noteq> [] then parse env s else ret None)
            | None \<Rightarrow> ret None))))
       (\<lambda>error. ret None)"

text \<open>\<^verbatim>\<open>{...storedUserData, ...userData}\<close>, where spreading \<^verbatim>\<open>null\<close> adds nothing.\<close>

definition merge_stored :: "jsobj option \<Rightarrow> jsobj \<Rightarrow> jsobj" where
  "merge_stored storedUserData userData =
     spread (case storedUserData of None \<Rightarrow> [] | Some obj \<Rightarrow> spread [] obj) userData"

text \<open>\<^verbatim>\<open>{...userData, updatedAt: firestore.FieldValue.serverTimestamp()}\<close>\<close>

definition update_doc :: "jsobj \<Rightarrow> jsobj" where
  "update_doc userData = spread (spread [] userData) [(''updatedAt'', JServerTimestamp)]"

definition updateUserProfile :: "'b env \<Rightarrow> jsobj \<Rightarrow> (unit, 'b) prog" where
  "updateUserProfile env userData =
     try_catch
       (seq (currentUser_now env)
          (\<lambda>currentUser.
        case currentUser of
          None \<Rightarrow> throw (Error ''No authenticated user found'')
        | Some cu \<Rightarrow>
            seq (sdk (DocUpdate (user_uid cu) (update_doc userData))
                   (doc_update env (user_uid cu) (update_doc userData)))
              (\<lambda>_.
            seq (getCurrentUser env)
              (\<lambda>storedUserData.
            setItem env USER_DATA_KEY (JSON_stringify env (merge_stored storedUserData userData))))))
       (\<lambda>error. throw error)"

definition resetPassword :: "'b env \<Rightarrow> string \<Rightarrow> (unit, 'b) prog" where
  "resetPassword env email =
     try_catch
       (sdk (SendPasswordResetEmail email) (sendPasswordResetEmail env email))
       (\<lambda>error. throw error)"

definition reauthenticate :: "'b env \<Rightarrow> string \<Rightarrow> (bool, 'b) prog" where
  "reauthenticate env password =
     try_catch
       (seq (currentUser_now env)
          (\<lambda>currentUser.
        case currentUser of
          None \<Rightarrow> throw (Error ''No authenticated user found or email is missing'')
        | Some cu \<Rightarrow>
            (case user_email cu of
               None \<Rightarrow> throw (Error ''No authenticated user found or email is missing'')
             | Some addr \<Rightarrow>
                 (if addr = []
                  then throw (Error ''No authenticated user found or email is missing'')
                  else
                    seq (sdk (Reauthenticate (user_uid cu) addr password)
                           (reauthenticateWithCredential env cu (addr, password)))
                      (\<lambda>_.
                    ret True)))))
       (\<lambda>error. ret False)"

definition changePassword :: "'b env \<Rightarrow> string \<Rightarrow> string \<Rightarrow> (bool, 'b) prog" where
  "changePassword env currentPassword newPassword =
     try_catch
       (seq (reauthenticate env currentPassword)
          (\<lambda>reauthenticated.
        if \<not> reauthenticated
        then throw (Error ''Failed to reauthenticate user'')
        else
          seq (currentUser_now env)
            (\<lambda>currentUser.
          case currentUser of
            None \<Rightarrow> throw TypeError
          | Some cu \<Rightarrow>
              seq (sdk (UpdatePassword (user_uid cu) newPassword) (updatePassword env cu newPassword))
                (\<lambda>_.
              ret True))))
       (\<lambda>error. throw error)"

section \<open>\<^verbatim>\<open>src/contexts/AuthContext.js\<close> and \<^verbatim>\<open>src/navigation/AppNavigator.js\<close>\<close>

text \<open>The three \<^verbatim>\<open>useState\<close> cells of \<^verbatim>\<open>AuthProvider\<close>.\<close>

record auth_state =
  currentUser :: "jsobj option"
  loading :: bool
  error :: "string option"

definition initial_state :: auth_state where
  "initial_state = \<lparr>currentUser = None, loading = True, error = None\<rparr>"

text \<open>The identity object itself, as \<^verbatim>\<open>setCurrentUser(user)\<close> stores it.\<close>

definition user_object :: "firebase_user \<Rightarrow> jsobj" where
  "user_object u = [(''uid'', JStr (user_uid u)), (''email'', email_val u)]"

text \<open>The callback that \<^verbatim>\<open>setupAuthListener\<close> gives to \<^verbatim>\<open>onAuthStateChanged\<close>.\<close>

definition authStateChanged ::
    "'b env \<Rightarrow> firebase_user option \<Rightarrow> auth_state \<times> 'b world \<Rightarrow> auth_state \<times> 'b world" where
  "authStateChanged env user cw =
     (case cw of (c, w) \<Rightarrow>
        (case user of
           Some u \<Rightarrow>
             (case getCurrentUser env w of
                (Inr userData, w') \<Rightarrow> (c\<lparr>currentUser := userData, loading := False\<rparr>, w')
              | (Inl err, w') \<Rightarrow> (c\<lparr>currentUser := Some (user_object u), loading := False\<rparr>, w'))
         | None \<Rightarrow> (c\<lparr>currentUser := None, loading := False\<rparr>, w)))"

text \<open>
  The shape shared by the six operations of the provider:
  \<^verbatim>\<open>setLoading(true); setError(null); try { x = await m; after; return x }
  catch (err) { setError(err.message); throw err } finally { setLoading(false) }\<close>.
\<close>

definition run_op ::
    "('a, 'b) prog \<Rightarrow> ('a \<Rightarrow> auth_state \<Rightarrow> auth_state) \<Rightarrow> auth_state \<times> 'b world
       \<Rightarrow> (js_error + 'a) \<times> auth_state \<times> 'b world" where
  "run_op m after cw =
     (case cw of (c, w) \<Rightarrow>
        (case m w of
           (Inr x, w') \<Rightarrow>
             (Inr x, (after x (c\<lparr>loading := True, error := None\<rparr>))\<lparr>loading := False\<rparr>, w')
         | (Inl err, w') \<Rightarrow>
             (Inl err, c\<lparr>loading := True, error := None\<rparr>\<lparr>error := Some (message err), loading := False\<rparr>, w')))"

definition ctx_register ::
    "'b env \<Rightarrow> string \<Rightarrow> string \<Rightarrow> jsobj \<Rightarrow> auth_state \<times> 'b world
       \<Rightarrow> (js_error + firebase_user) \<times> auth_state \<times> 'b world" where
  "ctx_register env email password userData =
     run_op (register env email password userData) (\<lambda>user c. c)"

definition ctx_login ::
    "'b env \<Rightarrow> string \<Rightarrow> string \<Rightarrow> auth_state \<times> 'b world
       \<Rightarrow> (js_error + firebase_user) \<times> auth_state \<times> 'b world" where
  "ctx_login env email password = run_op (login env email password) (\<lambda>user c. c)"

definition ctx_logout ::
    "'b env \<Rightarrow> auth_state \<times> 'b world \<Rightarrow> (js_error + unit) \<times> auth_state \<times> 'b world" where
  "ctx_logout env = run_op (logout env) (\<lambda>_ c. c)"

definition ctx_resetPassword ::
    "'b env \<Rightarrow> string \<Rightarrow> auth_state \<times> 'b world \<Rightarrow> (js_error + unit) \<times> auth_state \<times> 'b world" where
  "ctx_resetPassword env email = run_op (resetPassword env email) (\<lambda>_ c. c)"

text \<open>\<^verbatim>\<open>setCurrentUser((prevUser) => ({...prevUser, ...userData}))\<close> after the service call.\<close>

definition ctx_updateProfile ::
    "'b env \<Rightarrow> jsobj \<Rightarrow> auth_state \<times> 'b world \<Rightarrow> (js_error + unit) \<times> auth_state \<times> 'b world" where
  "ctx_updateProfile env userData =
     run_op (updateUserProfile env userData)
       (\<lambda>_ c. c\<lparr>currentUser := Some (merge_stored (currentUser c) userData)\<rparr>)"

definition ctx_changePassword ::
    "'b env \<Rightarrow> string \<Rightarrow> string \<Rightarrow> auth_state \<times> 'b world
       \<Rightarrow> (js_error + bool) \<times> auth_state \<times> 'b world" where
  "ctx_changePassword env currentPassword newPassword =
     run_op (changePassword env currentPassword newPassword) (\<lambda>success c. c)"

text \<open>\<^verbatim>\<open>isAuthenticated: () => !!currentUser\<close>\<close>

definition ctx_isAuthenticated :: "auth_state \<Rightarrow> bool" where
  "ctx_isAuthenticated c = (currentUser c \<noteq> None)"

text \<open>What \<^verbatim>\<open>AppNavigator\<close> renders; \<open>initializing\<close> is its own two-second flag.\<close>

datatype screen = LoadingScreen | AppStack | AuthStack

definition AppNavigator :: "bool \<Rightarrow> auth_state \<Rightarrow> screen" where
  "AppNavigator initializing c =
     (if initializing \<or> loading c then LoadingScreen
      else if currentUser c \<noteq> None then AppStack
      else AuthStack)"

section \<open>A reference backend\<close>

text \<open>
  Modelled from the spec: the Firebase SDK, AsyncStorage and the JSON codec are not in
  the repository. This backend follows the capability interface of section 6 of the
  specification (\<^verbatim>\<open>createAccount\<close>, \<^verbatim>\<open>signIn\<close>, \<^verbatim>\<open>signOut\<close>, \<^verbatim>\<open>currentIdentity\<close>,
  \<^verbatim>\<open>issueToken\<close>, \<^verbatim>\<open>sendPasswordReset\<close>, \<^verbatim>\<open>reauthenticate\<close>, \<^verbatim>\<open>updatePassword\<close>,
  \<^verbatim>\<open>readProfile\<close>, \<^verbatim>\<open>writeProfile\<close> as create or merge-update) with its error
  kinds. Creating an account or signing in makes the identity the live one. A
  capability named in \<open>down\<close> rejects with \<open>BackendUnavailable\<close> and changes nothing.
  It is one instance of the parameter \<open>env\<close>, used for the concrete examples.
\<close>

record backend =
  accounts :: "string \<rightharpoonup> string"
  live :: "firebase_user option"
  docs :: "string \<rightharpoonup> jsobj"
  clock :: nat

definition BackendUnavailable :: js_error where
  "BackendUnavailable = Rejected ''BackendUnavailable''"

definition identity_of :: "string \<Rightarrow> firebase_user" where
  "identity_of email = \<lparr>user_uid = ''uid-'' @ email, user_email = Some email\<rparr>"

definition createAccount ::
    "string list \<Rightarrow> string \<Rightarrow> string \<Rightarrow> backend \<Rightarrow> (js_error + firebase_user) \<times> backend" where
  "createAccount down email password b =
     (if ''createAccount'' \<in> set down then (Inl BackendUnavailable, b)
      else if accounts b email \<noteq> None then (Inl (Rejected ''IdentityConflict''), b)
      else (Inr (identity_of email),
            b\<lparr>accounts := (accounts b)(email \<mapsto> password), live := Some (identity_of email)\<rparr>))"

definition signIn ::
    "string list \<Rightarrow> string \<Rightarrow> string \<Rightarrow> backend \<Rightarrow> (js_error + firebase_user) \<times> backend" where
  "signIn down email password b =
     (if ''signIn'' \<in> set down then (Inl BackendUnavailable, b)
      else case accounts b email of
             None \<Rightarrow> (Inl (Rejected ''AccountNotFound''), b)
           | Some p \<Rightarrow>
               (if p = password then (Inr (identity_of email), b\<lparr>live := Some (identity_of email)\<rparr>)
                else (Inl (Rejected ''InvalidCredentials''), b)))"

definition signOut_backend :: "string list \<Rightarrow> backend \<Rightarrow> (js_error + unit) \<times> backend" where
  "signOut_backend down b =
     (if ''signOut'' \<in> set down then (Inl BackendUnavailable, b)
      else (Inr (), b\<lparr>live := None\<rparr>))"

definition sendPasswordReset ::
    "string list \<Rightarrow> string \<Rightarrow> backend \<Rightarrow> (js_error + unit) \<times> backend" where
  "sendPasswordReset down email b =
     (if ''sendPasswordReset'' \<in> set down then (Inl BackendUnavailable, b)
      else if accounts b email = None then (Inl (Rejected ''AccountNotFound''), b)
      else (Inr (), b))"

definition issueToken ::
    "string list \<Rightarrow> firebase_user \<Rightarrow> backend \<Rightarrow> (js_error + string) \<times> backend" where
  "issueToken down u b =
     (if ''issueToken'' \<in> set down then (Inl BackendUnavailable, b)
      else (Inr (''token-'' @ user_uid u), b))"

definition reauthenticate_backend ::
    "string list \<Rightarrow> firebase_user \<Rightarrow> string \<times> string \<Rightarrow> backend \<Rightarrow> (js_error + unit) \<times> backend" where
  "reauthenticate_backend down u cred b =
     (if ''reauthenticate'' \<in> set down then (Inl BackendUnavailable, b)
      else if accounts b (fst cred) = Some (snd cred) then (Inr (), b)
      else (Inl (Rejected ''InvalidCredentials''), b))"

definition updatePassword_backend ::
    "string list \<Rightarrow> firebase_user \<Rightarrow> string \<Rightarrow> backend \<Rightarrow> (js_error + unit) \<times> backend" where
  "updatePassword_backend down u newPassword b =
     (if ''updatePassword'' \<in> set down then (Inl BackendUnavailable, b)
      else case user_email u of
             None \<Rightarrow> (Inl (Rejected ''AccountNotFound''), b)
           | Some addr \<Rightarrow> (Inr (), b\<lparr>accounts := (accounts b)(addr \<mapsto> newPassword)\<rparr>))"

definition readProfile ::
    "string list \<Rightarrow> string \<Rightarrow> backend \<Rightarrow> (js_error + jsobj option) \<times> backend" where
  "readProfile down userId b =
     (if ''readProfile'' \<in> set down then (Inl BackendUnavailable, b)
      else (Inr (docs b userId), b))"

text \<open>The server replaces the timestamp sentinel by its clock when it stores a field.\<close>

definition resolve :: "nat \<Rightarrow> jsval \<Rightarrow> jsval" where
  "resolve t v = (if v = JServerTimestamp then JTimestamp t else v)"

definition stamp :: "nat \<Rightarrow> jsobj \<Rightarrow> jsobj" where
  "stamp t obj = map (\<lambda>(k, v). (k, resolve t v)) obj"

text \<open>
  \<^verbatim>\<open>writeProfile\<close>, create or merge-update: with \<open>merge = False\<close> (the \<^verbatim>\<open>set\<close> of
  \<^verbatim>\<open>register\<close>) the document becomes the given fields; with \<open>merge = True\<close> (the
  \<^verbatim>\<open>update\<close> of \<^verbatim>\<open>login\<close> and \<^verbatim>\<open>updateUserProfile\<close>) the fields are laid over the
  document that is there.
\<close>

definition writeProfile ::
    "string list \<Rightarrow> bool \<Rightarrow> string \<Rightarrow> jsobj \<Rightarrow> backend \<Rightarrow> (js_error + unit) \<times> backend" where
  "writeProfile down merge userId flds b =
     (if ''writeProfile'' \<in> set down then (Inl BackendUnavailable, b)
      else (Inr (),
            b\<lparr>docs := (docs b)(userId \<mapsto>
                 spread (if merge then (case docs b userId of None \<Rightarrow> [] | Some d \<Rightarrow> d) else [])
                   (stamp (clock b) flds))\<rparr>))"

text \<open>
  A JSON encoder for the flat objects of this development: a property whose value is
  \<^verbatim>\<open>undefined\<close> is left out, as \<^verbatim>\<open>JSON.stringify\<close> does.
\<close>

fun dec :: "nat \<Rightarrow> string" where
  "dec n = (if n < 10 then [''0123456789'' ! n] else dec (n div 10) @ [''0123456789'' ! (n mod 10)])"

declare dec.simps [simp del]

definition quote :: "string \<Rightarrow> string" where
  "quote s =
     CHR 0x22 # concat (map (\<lambda>c. if c = CHR 0x22 \<or> c = CHR 0x5C then [CHR 0x5C, c] else [c]) s)
       @ [CHR 0x22]"

fun json_value :: "jsval \<Rightarrow> string option" where
  "json_value JUndefined = None"
| "json_value JNull = Some ''null''"
| "json_value (JBool b) = Some (if b then ''true'' else ''false'')"
| "json_value (JNum n) = Some (if n < 0 then ''-'' @ dec (nat (- n)) else dec (nat n))"
| "json_value (JStr s) = Some (quote s)"
| "json_value JServerTimestamp = Some ''{}''"
| "json_value (JTimestamp t) = Some (''{'' @ quote ''seconds'' @ '':'' @ dec t @ ''}'')"

fun join :: "string list \<Rightarrow> string" where
  "join [] = []"
| "join [x] = x"
| "join (x # y # ys) = x @ '','' @ join (y # ys)"

definition stringify :: "jsobj \<Rightarrow> string" where
  "stringify obj =
     ''{'' @ join (List.map_filter
                     (\<lambda>(k, v). map_option (\<lambda>s. quote k @ '':'' @ s) (json_value v)) obj) @ ''}''"

text \<open>
  The decoder answers for the objects listed in \<open>known\<close>: a text is parsed to the
  listed object it is the encoding of; \<^verbatim>\<open>null\<close> is parsed to \<open>None\<close>; any other text
  is a syntax error.
\<close>

definition parse_known :: "jsobj list \<Rightarrow> string \<Rightarrow> js_error + jsobj option" where
  "parse_known known s =
     (if s = ''null'' then Inr None
      else case List.find (\<lambda>obj. stringify obj = s) known of
             Some obj \<Rightarrow> Inr (Some obj)
           | None \<Rightarrow> Inl (Rejected ''SyntaxError''))"

definition fake :: "string list \<Rightarrow> jsobj list \<Rightarrow> backend env" where
  "fake down known =
     \<lparr>auth_currentUser = live,
      createUserWithEmailAndPassword = createAccount down,
      signInWithEmailAndPassword = signIn down,
      signOut = signOut_backend down,
      sendPasswordResetEmail = sendPasswordReset down,
      getIdToken = issueToken down,
      reauthenticateWithCredential = reauthenticate_backend down,
      updatePassword = updatePassword_backend down,
      doc_set = writeProfile down False,
      doc_update = writeProfile down True,
      doc_get = readProfile down,
      storage_error = (\<lambda>c. if ''storage'' \<in> set down then Some BackendUnavailable else None),
      JSON_stringify = stringify,
      JSON_parse = parse_known known\<rparr>"

text \<open>A backend with nothing in it, and a device with nothing stored.\<close>

definition empty_backend :: backend where
  "empty_backend = \<lparr>accounts = Map.empty, live = None, docs = Map.empty, clock = 1000\<rparr>"

definition fresh :: "backend world" where
  "fresh = \<lparr>remote = empty_backend, storage = Map.empty, calls = []\<rparr>"

section \<open>Specification-level notions and a running example\<close>

text \<open>
  What the cache holds as a session snapshot: the parsed text under \<open>USER_DATA_KEY\<close>,
  nothing when the entry is absent, empty or does not parse.
\<close>

definition cached_snapshot :: "'b env \<Rightarrow> 'b world \<Rightarrow> jsobj option" where
  "cached_snapshot env w =
     (case storage w USER_DATA_KEY of
        None \<Rightarrow> None
      | Some s \<Rightarrow>
          (if s = [] then None
           else case JSON_parse env s of Inl e \<Rightarrow> None | Inr r \<Rightarrow> r))"

fun is_UpdatePassword :: "call \<Rightarrow> bool" where
  "is_UpdatePassword (UpdatePassword u p) = True"
| "is_UpdatePassword c = False"

text \<open>
  The scenario of section 8 of the specification, with the profile fields that the
  registration screen passes (\<^verbatim>\<open>name\<close>, \<^verbatim>\<open>diabetesType\<close> and a client-side
  \<^verbatim>\<open>createdAt\<close>): Ann registers on a fresh device, then logs in.
\<close>

definition ann_fields :: jsobj where
  "ann_fields =
     [(''name'', JStr ''Ann''),
      (''diabetesType'', JStr ''Type 1''),
      (''createdAt'', JStr ''2024-01-01T00:00:00.000Z'')]"

definition ann :: firebase_user where
  "ann = identity_of ''a@x.com''"

definition registered :: "backend world" where
  "registered = snd (register (fake [] []) ''a@x.com'' ''secret1'' ann_fields fresh)"

definition signed_in :: "backend world" where
  "signed_in = snd (login (fake [] []) ''a@x.com'' ''secret1'' registered)"

text \<open>The snapshots that \<^verbatim>\<open>register\<close> and \<^verbatim>\<open>login\<close> leave in the cache.\<close>

definition register_snapshot :: jsobj where
  "register_snapshot =
     [(''uid'', JStr ''uid-a@x.com''),
      (''email'', JStr ''a@x.com''),
      (''name'', JStr ''Ann''),
      (''diabetesType'', JStr ''Type 1''),
      (''createdAt'', JStr ''2024-01-01T00:00:00.000Z'')]"

definition login_snapshot :: jsobj where
  "login_snapshot =
     [(''uid'', JStr ''uid-a@x.com''),
      (''email'', JStr ''a@x.com''),
      (''name'', JStr ''Ann''),
      (''birthdate'', JNull),
      (''diabetesType'', JStr ''Type 1'')]"

text \<open>The profile document of Ann, as the backend holds it after registration.\<close>

definition ann_doc :: jsobj where
  "ann_doc =
     [(''email'', JStr ''a@x.com''),
      (''name'', JStr ''Ann''),
      (''birthdate'', JNull),
      (''diabetesType'', JStr ''Type 1''),
      (''createdAt'', JTimestamp 1000),
      (''lastLoginAt'', JTimestamp 1000)]"

text \<open>The session that the live read gives for Ann, and the one after she renames herself.\<close>

definition ann_session :: jsobj where
  "ann_session =
     [(''uid'', JStr ''uid-a@x.com''),
      (''email'', JStr ''a@x.com''),
      (''name'', JStr ''Ann''),
      (''birthdate'', JNull),
      (''diabetesType'', JStr ''Type 1''),
      (''createdAt'', JTimestamp 1000),
      (''lastLoginAt'', JTimestamp 1000)]"

definition new_name :: jsobj where
  "new_name = [(''name'', JStr ''Anna'')]"

definition renamed_session :: jsobj where
  "renamed_session =
     [(''uid'', JStr ''uid-a@x.com''),
      (''email'', JStr ''a@x.com''),
      (''name'', JStr ''Anna''),
      (''birthdate'', JNull),
      (''diabetesType'', JStr ''Type 1''),
      (''createdAt'', JTimestamp 1000),
      (''lastLoginAt'', JTimestamp 1000),
      (''updatedAt'', JTimestamp 1000)]"

text \<open>
  The provider state and the world after the identity-change callback reported Ann
  while the profile read was down.
\<close>

definition after_failed_read :: "auth_state \<times> backend world" where
  "after_failed_read =
     authStateChanged (fake [''readProfile''] []) (Some ann) (initial_state, registered)"

text \<open>The same world with another session token, or none, in the cache.\<close>

definition set_token :: "string option \<Rightarrow> 'b world \<Rightarrow> 'b world" where
  "set_token t w = w\<lparr>storage := (storage w)(AUTH_TOKEN_KEY := t)\<rparr>"



section \<open>Basic facts\<close>

lemmas prog_defs = seq_def try_catch_def ret_def throw_def sdk_def currentUser_now_def
  setItem_def getItem_def removeItem_def parse_def

lemmas fake_defs = fake_def createAccount_def signIn_def signOut_backend_def sendPasswordReset_def
  issueToken_def reauthenticate_backend_def updatePassword_backend_def readProfile_def
  writeProfile_def stamp_def identity_of_def BackendUnavailable_def

lemmas key_defs = USER_DATA_KEY_def AUTH_TOKEN_KEY_def

text \<open>Reading a property of an object that is written out.\<close>

lemma get_prop_Nil [simp]: "get_prop [] k = JUndefined"
  by (simp add: get_prop_def)

lemma get_prop_Cons [simp]: "get_prop ((k', v) # ps) k = (if k' = k then v else get_prop ps k)"
  by (simp add: get_prop_def)

text \<open>Only the sentinel is replaced by the server time.\<close>

lemma resolve_simps [simp]:
  "resolve t JServerTimestamp = JTimestamp t"
  "resolve t JUndefined = JUndefined"
  "resolve t JNull = JNull"
  "resolve t (JBool b) = JBool b"
  "resolve t (JNum n) = JNum n"
  "resolve t (JStr s) = JStr s"
  "resolve t (JTimestamp m) = JTimestamp m"
  by (simp_all add: resolve_def)

lemma resolve_or_else:
  "truthy v \<Longrightarrow> v \<noteq> JServerTimestamp \<Longrightarrow> resolve t (or_else v d) = v"
  by (simp add: resolve_def or_else_def)

text \<open>A handler that only rethrows changes nothing.\<close>

lemma try_catch_rethrow: "try_catch m (\<lambda>error. throw error) = m"
  by (rule ext) (simp add: try_catch_def throw_def split: prod.splits sum.splits)

lemma seq_Inr: "m w = (Inr x, w') \<Longrightarrow> seq m k w = k x w'"
  by (simp add: seq_def)

lemma seq_Inl: "m w = (Inl e, w') \<Longrightarrow> seq m k w = (Inl e, w')"
  by (simp add: seq_def)

lemma keys_differ: "USER_DATA_KEY \<noteq> AUTH_TOKEN_KEY"
  by (simp add: key_defs)

text \<open>The running example, spelled out.\<close>

lemma registered_eq:
  "registered =
     \<lparr>remote = \<lparr>accounts = [''a@x.com'' \<mapsto> ''secret1''], live = Some ann,
                docs = [''uid-a@x.com'' \<mapsto> ann_doc], clock = 1000\<rparr>,
      storage = [USER_DATA_KEY \<mapsto> stringify register_snapshot],
      calls = [CreateUser ''a@x.com'' ''secret1'',
               DocSet ''uid-a@x.com'' (register_doc ''a@x.com'' ann_fields),
               SetItem USER_DATA_KEY (stringify register_snapshot)]\<rparr>"
  by (simp add: registered_def register_def prog_defs fake_defs fresh_def empty_backend_def
      ann_fields_def ann_def ann_doc_def register_snapshot_def register_doc_def or_else_def
      get_prop_def email_val_def)

lemma signed_in_eq:
  "signed_in =
     \<lparr>remote = \<lparr>accounts = [''a@x.com'' \<mapsto> ''secret1''], live = Some ann,
                docs = [''uid-a@x.com'' \<mapsto> ann_doc], clock = 1000\<rparr>,
      storage = [USER_DATA_KEY \<mapsto> stringify login_snapshot,
                 AUTH_TOKEN_KEY \<mapsto> ''token-uid-a@x.com''],
      calls = calls registered @
              [SignIn ''a@x.com'' ''secret1'',
               DocUpdate ''uid-a@x.com'' [(''lastLoginAt'', JServerTimestamp)],
               DocGet ''uid-a@x.com'',
               SetItem USER_DATA_KEY (stringify login_snapshot),
               GetIdToken ''uid-a@x.com'',
               SetItem AUTH_TOKEN_KEY ''token-uid-a@x.com'']\<rparr>"
  by (simp add: signed_in_def registered_eq login_def prog_defs fake_defs
      ann_def ann_doc_def login_snapshot_def get_prop_def email_val_def key_defs)

section \<open>logout\<close>

text \<open>
  C1, as the specification states it: every call of \<^verbatim>\<open>logout()\<close> clears the two cache
  entries, also when the remote sign-out fails. The code does not: \<^verbatim>\<open>signOut\<close> is
  awaited first, inside the \<^verbatim>\<open>try\<close>, and its rejection skips both removals. In the
  running example, with the sign-out capability down, \<^verbatim>\<open>logout()\<close> raises and both
  entries are still there.
\<close>

theorem logout_keeps_cache_counterexample:
  "fst (logout (fake [''signOut''] []) signed_in) = Inl BackendUnavailable
   \<and> storage (snd (logout (fake [''signOut''] []) signed_in)) USER_DATA_KEY
       = Some (stringify login_snapshot)
   \<and> storage (snd (logout (fake [''signOut''] []) signed_in)) AUTH_TOKEN_KEY
       = Some ''token-uid-a@x.com''"
  by (simp add: signed_in_eq logout_def prog_defs fake_defs key_defs)

text \<open>
  C1, amended: when the remote sign-out succeeds (and AsyncStorage accepts the two
  removals), \<^verbatim>\<open>logout()\<close> returns and both cache entries are absent; when the remote
  sign-out fails, \<^verbatim>\<open>logout()\<close> raises that error and the cache is left as it was.
\<close>

theorem logout_clears_cache_after_signOut:
  "(fst (signOut env (remote w)) = Inr ()
      \<and> storage_error env (RemoveItem USER_DATA_KEY) = None
      \<and> storage_error env (RemoveItem AUTH_TOKEN_KEY) = None
    \<longrightarrow> fst (logout env w) = Inr ()
        \<and> storage (snd (logout env w)) USER_DATA_KEY = None
        \<and> storage (snd (logout env w)) AUTH_TOKEN_KEY = None)
   \<and> (\<forall>e. fst (signOut env (remote w)) = Inl e
        \<longrightarrow> fst (logout env w) = Inl e \<and> storage (snd (logout env w)) = storage w)"
  by (cases "signOut env (remote w)")
     (auto simp: logout_def try_catch_rethrow prog_defs split: option.splits sum.splits)

theorem logout_clears_cache_after_signOut_witness:
  "fst (signOut (fake [] []) (remote signed_in)) = Inr ()
   \<and> storage_error (fake [] []) (RemoveItem USER_DATA_KEY) = None
   \<and> storage_error (fake [] []) (RemoveItem AUTH_TOKEN_KEY) = None
   \<and> fst (logout (fake [] []) signed_in) = Inr ()
   \<and> storage (snd (logout (fake [] []) signed_in)) USER_DATA_KEY = None
   \<and> storage (snd (logout (fake [] []) signed_in)) AUTH_TOKEN_KEY = None
   \<and> fst (signOut (fake [''signOut''] []) (remote signed_in)) = Inl BackendUnavailable
   \<and> fst (logout (fake [''signOut''] []) signed_in) = Inl BackendUnavailable
   \<and> storage (snd (logout (fake [''signOut''] []) signed_in)) = storage signed_in"
  using logout_clears_cache_after_signOut [of "fake [] []" signed_in]
        logout_clears_cache_after_signOut [of "fake [''signOut''] []" signed_in]
  by (simp add: fake_defs)

section \<open>reauthenticate and changePassword\<close>

text \<open>
  C3: for every password, every world and every behaviour of the identity provider,
  \<^verbatim>\<open>reauthenticate\<close> returns a boolean and never raises. It returns \<^verbatim>\<open>true\<close> exactly when
  there is a live identity with a non-empty email and the provider accepts the
  credential; a missing identity, a missing email and a rejection of the provider all
  give \<^verbatim>\<open>false\<close>.
\<close>

theorem reauthenticate_never_raises:
  "fst (reauthenticate env password w) =
     Inr (case auth_currentUser env (remote w) of
            None \<Rightarrow> False
          | Some cu \<Rightarrow>
              (case user_email cu of
                 None \<Rightarrow> False
               | Some addr \<Rightarrow>
                   addr \<noteq> [] \<and>
                   fst (reauthenticateWithCredential env cu (addr, password) (remote w)) = Inr ()))"
  by (simp add: reauthenticate_def prog_defs split: option.splits prod.splits sum.splits)

theorem reauthenticate_never_raises_witness:
  "fst (reauthenticate (fake [] []) ''secret1'' signed_in) = Inr True
   \<and> fst (reauthenticate (fake [] []) ''guess'' signed_in) = Inr False
   \<and> fst (reauthenticate (fake [''reauthenticate''] []) ''secret1'' signed_in) = Inr False
   \<and> fst (reauthenticate (fake [] []) ''secret1'' fresh) = Inr False"
  using reauthenticate_never_raises [of "fake [] []" "''secret1''" signed_in]
        reauthenticate_never_raises [of "fake [] []" "''guess''" signed_in]
        reauthenticate_never_raises [of "fake [''reauthenticate''] []" "''secret1''" signed_in]
        reauthenticate_never_raises [of "fake [] []" "''secret1''" fresh]
  by (simp add: signed_in_eq fresh_def empty_backend_def fake_defs ann_def)

text \<open>Substituting another password-update capability does not touch \<^verbatim>\<open>reauthenticate\<close>.\<close>

lemma reauthenticate_ignores_updatePassword:
  "reauthenticate (env\<lparr>updatePassword := f\<rparr>) password = reauthenticate env password"
  by (rule ext) (auto simp: reauthenticate_def prog_defs split: option.splits)

text \<open>What \<^verbatim>\<open>reauthenticate\<close> leaves behind: at most one call, to the provider's re-proof.\<close>

lemma reauthenticate_world:
  "snd (reauthenticate env password w) = w
   \<or> (\<exists>cu addr. auth_currentUser env (remote w) = Some cu \<and> user_email cu = Some addr
        \<and> snd (reauthenticate env password w) =
            w\<lparr>remote := snd (reauthenticateWithCredential env cu (addr, password) (remote w)),
              calls := calls w @ [Reauthenticate (user_uid cu) addr password]\<rparr>)"
  by (auto simp: reauthenticate_def prog_defs split: option.splits prod.splits sum.splits)

text \<open>
  C2: whenever \<^verbatim>\<open>reauthenticate(currentPassword)\<close> returns \<^verbatim>\<open>false\<close>,
  \<^verbatim>\<open>changePassword(currentPassword, newPassword)\<close> fails with the error
  \<open>ReauthenticationFailed\<close> and does nothing beyond that re-authentication attempt:
  the world it leaves is the one \<^verbatim>\<open>reauthenticate\<close> alone leaves, the cache is
  unchanged, no call of the password-update capability is made (none is logged, and the
  outcome is the same whatever that capability would do), and the remote state is
  either unchanged or what the provider's own rejected re-proof left.
\<close>

theorem changePassword_requires_reauthentication:
  assumes "fst (reauthenticate env currentPassword w) = Inr False"
  shows "fst (changePassword env currentPassword newPassword w) = Inl ReauthenticationFailed
     \<and> snd (changePassword env currentPassword newPassword w)
         = snd (reauthenticate env currentPassword w)
     \<and> storage (snd (changePassword env currentPassword newPassword w)) = storage w
     \<and> filter is_UpdatePassword (calls (snd (changePassword env currentPassword newPassword w)))
         = filter is_UpdatePassword (calls w)
     \<and> changePassword (env\<lparr>updatePassword := f\<rparr>) currentPassword newPassword w
         = changePassword env currentPassword newPassword w
     \<and> (remote (snd (changePassword env currentPassword newPassword w)) = remote w
        \<or> (\<exists>cu addr. auth_currentUser env (remote w) = Some cu \<and> user_email cu = Some addr
             \<and> remote (snd (changePassword env currentPassword newPassword w))
                 = snd (reauthenticateWithCredential env cu (addr, currentPassword) (remote w))))"
proof -
  obtain w1 where run: "reauthenticate env currentPassword w = (Inr False, w1)"
    using assms by (cases "reauthenticate env currentPassword w") auto
  have result: "changePassword env currentPassword newPassword w
                  = (Inl ReauthenticationFailed, w1)"
    by (simp add: changePassword_def try_catch_rethrow seq_def run throw_def
        ReauthenticationFailed_def)
  have same: "changePassword (env\<lparr>updatePassword := f\<rparr>) currentPassword newPassword w
                = (Inl ReauthenticationFailed, w1)"
    by (simp add: changePassword_def try_catch_rethrow seq_def run throw_def
        reauthenticate_ignores_updatePassword ReauthenticationFailed_def)
  have w1: "snd (reauthenticate env currentPassword w) = w1"
    by (simp add: run)
  from reauthenticate_world [of env currentPassword w]
  have store: "storage w1 = storage w"
    unfolding w1 by auto
  from reauthenticate_world [of env currentPassword w]
  have log: "filter is_UpdatePassword (calls w1) = filter is_UpdatePassword (calls w)"
    unfolding w1 by auto
  from reauthenticate_world [of env currentPassword w]
  have rem: "remote w1 = remote w
     \<or> (\<exists>cu addr. auth_currentUser env (remote w) = Some cu \<and> user_email cu = Some addr
          \<and> remote w1
              = snd (reauthenticateWithCredential env cu (addr, currentPassword) (remote w)))"
    unfolding w1 by auto
  show ?thesis
    using result same store log rem w1 by simp
qed

text \<open>
  In the running example a wrong current password is refused: the account keeps its
  password and the device its cache.
\<close>

theorem changePassword_requires_reauthentication_witness:
  "fst (reauthenticate (fake [] []) ''guess'' signed_in) = Inr False
   \<and> fst (changePassword (fake [] []) ''guess'' ''secret2'' signed_in) = Inl ReauthenticationFailed
   \<and> remote (snd (changePassword (fake [] []) ''guess'' ''secret2'' signed_in)) = remote signed_in
   \<and> storage (snd (changePassword (fake [] []) ''guess'' ''secret2'' signed_in)) = storage signed_in
   \<and> calls (snd (changePassword (fake [] []) ''guess'' ''secret2'' signed_in))
       = calls signed_in @ [Reauthenticate ''uid-a@x.com'' ''a@x.com'' ''guess'']"
proof -
  have refused: "fst (reauthenticate (fake [] []) ''guess'' signed_in) = Inr False"
    by (simp add: reauthenticate_def prog_defs signed_in_eq fake_defs ann_def)
  have after: "snd (reauthenticate (fake [] []) ''guess'' signed_in)
      = signed_in\<lparr>calls := calls signed_in @ [Reauthenticate ''uid-a@x.com'' ''a@x.com'' ''guess'']\<rparr>"
    by (simp add: reauthenticate_def prog_defs signed_in_eq fake_defs ann_def)
  show ?thesis
    using refused after
      changePassword_requires_reauthentication [OF refused, of "''secret2''"]
    by simp
qed

section \<open>isAuthenticated and getCurrentUser\<close>

text \<open>
  C5, as the specification states it: without a live identity, \<^verbatim>\<open>isAuthenticated()\<close> is
  true if and only if the cache holds a non-empty session token. The code tests
  \<^verbatim>\<open>token !== null\<close>, so an entry holding the empty string also counts: here there is no
  live identity, the token entry is the empty string, and the answer is \<^verbatim>\<open>true\<close>.
\<close>

theorem isAuthenticated_empty_token_counterexample:
  "auth_currentUser (fake [] []) (remote (fresh\<lparr>storage := [AUTH_TOKEN_KEY \<mapsto> '''']\<rparr>)) = None
   \<and> storage (fresh\<lparr>storage := [AUTH_TOKEN_KEY \<mapsto> '''']\<rparr>) AUTH_TOKEN_KEY = Some ''''
   \<and> fst (isAuthenticated (fake [] []) (fresh\<lparr>storage := [AUTH_TOKEN_KEY \<mapsto> '''']\<rparr>)) = Inr True"
  by (simp add: isAuthenticated_def prog_defs fake_defs fresh_def empty_backend_def)

text \<open>
  C5, amended: \<^verbatim>\<open>isAuthenticated()\<close> never raises; it returns \<^verbatim>\<open>true\<close> whenever the
  identity provider reports a live identity; otherwise it returns \<^verbatim>\<open>true\<close> if and only
  if the cache read succeeds and the cache holds a session-token entry (whatever
  string it holds).
\<close>

theorem isAuthenticated_live_or_token:
  "fst (isAuthenticated env w) =
     Inr (case auth_currentUser env (remote w) of
            Some u \<Rightarrow> True
          | None \<Rightarrow>
              storage_error env (GetItem AUTH_TOKEN_KEY) = None
              \<and> storage w AUTH_TOKEN_KEY \<noteq> None)"
  by (simp add: isAuthenticated_def prog_defs split: option.splits)

theorem isAuthenticated_live_or_token_witness:
  "fst (isAuthenticated (fake [] []) signed_in) = Inr True
   \<and> fst (isAuthenticated (fake [] []) fresh) = Inr False
   \<and> fst (isAuthenticated (fake [] [])
            (signed_in\<lparr>remote := (remote signed_in)\<lparr>live := None\<rparr>\<rparr>)) = Inr True
   \<and> fst (isAuthenticated (fake [''storage''] [])
            (signed_in\<lparr>remote := (remote signed_in)\<lparr>live := None\<rparr>\<rparr>)) = Inr False"
  using isAuthenticated_live_or_token [of "fake [] []" signed_in]
        isAuthenticated_live_or_token [of "fake [] []" fresh]
        isAuthenticated_live_or_token
          [of "fake [] []" "signed_in\<lparr>remote := (remote signed_in)\<lparr>live := None\<rparr>\<rparr>"]
        isAuthenticated_live_or_token
          [of "fake [''storage''] []" "signed_in\<lparr>remote := (remote signed_in)\<lparr>live := None\<rparr>\<rparr>"]
  by (simp add: signed_in_eq fresh_def empty_backend_def fake_defs key_defs)

text \<open>\<^verbatim>\<open>getCurrentUser\<close> swallows every error: it always returns.\<close>

lemma getCurrentUser_returns: "\<exists>r. fst (getCurrentUser env w) = Inr r"
  by (simp add: getCurrentUser_def try_catch_def ret_def split: prod.splits sum.splits)

text \<open>
  C4, as the specification states it: when the remote read is unavailable,
  \<^verbatim>\<open>getCurrentUser()\<close> returns the cached snapshot. The code does not: a rejected
  profile read is caught by the \<^verbatim>\<open>catch\<close> block, which returns \<^verbatim>\<open>null\<close> without looking
  at the cache. In the running example, with the profile read down, the identity is
  live, the cache holds the snapshot written by \<^verbatim>\<open>login\<close>, and the answer is \<^verbatim>\<open>null\<close>.
\<close>

theorem getCurrentUser_unreachable_counterexample:
  "auth_currentUser (fake [''readProfile''] [login_snapshot]) (remote signed_in) = Some ann
   \<and> fst (doc_get (fake [''readProfile''] [login_snapshot]) (user_uid ann) (remote signed_in))
       = Inl BackendUnavailable
   \<and> cached_snapshot (fake [''readProfile''] [login_snapshot]) signed_in = Some login_snapshot
   \<and> fst (getCurrentUser (fake [''readProfile''] [login_snapshot]) signed_in) = Inr None"
  by (simp add: signed_in_eq getCurrentUser_def cached_snapshot_def parse_known_def
      prog_defs fake_defs key_defs ann_def stringify_def)

text \<open>
  C4, amended: \<^verbatim>\<open>getCurrentUser()\<close> never raises. With a live identity whose profile
  document exists it returns the identity fields merged with the document. When the
  live identity is absent, or the profile document does not exist, it returns the
  cached snapshot (the parsed cache entry), and \<^verbatim>\<open>null\<close> when the cache is empty. When
  the profile read or the cache read is rejected, the error is swallowed and the result
  is \<^verbatim>\<open>null\<close>; the cache is not consulted after a rejected profile read.
\<close>

theorem getCurrentUser_sources:
  "(\<exists>r. fst (getCurrentUser env w) = Inr r)
   \<and> (\<forall>cu d. auth_currentUser env (remote w) = Some cu
          \<and> fst (doc_get env (user_uid cu) (remote w)) = Inr (Some d)
        \<longrightarrow> fst (getCurrentUser env w)
              = Inr (Some (spread [(''uid'', JStr (user_uid cu)), (''email'', email_val cu)] d)))
   \<and> ((auth_currentUser env (remote w) = None
         \<or> (\<exists>cu. auth_currentUser env (remote w) = Some cu
               \<and> fst (doc_get env (user_uid cu) (remote w)) = Inr None))
        \<and> storage_error env (GetItem USER_DATA_KEY) = None
        \<longrightarrow> fst (getCurrentUser env w) = Inr (cached_snapshot env w))
   \<and> (storage w USER_DATA_KEY = None \<longrightarrow> cached_snapshot env w = None)
   \<and> (\<forall>cu e. auth_currentUser env (remote w) = Some cu
          \<and> fst (doc_get env (user_uid cu) (remote w)) = Inl e
        \<longrightarrow> fst (getCurrentUser env w) = Inr None)
   \<and> ((auth_currentUser env (remote w) = None
         \<or> (\<exists>cu. auth_currentUser env (remote w) = Some cu
               \<and> fst (doc_get env (user_uid cu) (remote w)) = Inr None))
        \<and> storage_error env (GetItem USER_DATA_KEY) \<noteq> None
        \<longrightarrow> fst (getCurrentUser env w) = Inr None)"
proof (cases "auth_currentUser env (remote w)")
  case None
  then show ?thesis
    by (auto simp: getCurrentUser_def cached_snapshot_def prog_defs
        split: option.splits sum.splits)
next
  case (Some cu)
  obtain r b where got: "doc_get env (user_uid cu) (remote w) = (r, b)"
    by (cases "doc_get env (user_uid cu) (remote w)")
  show ?thesis
    using Some got
    by (auto simp: getCurrentUser_def cached_snapshot_def prog_defs
        split: option.splits sum.splits)
qed

text \<open>
  Each case in the running example: the live read; the cache when the identity is not
  live; the cache when the document is missing; nothing on a fresh device; \<^verbatim>\<open>null\<close>
  when the profile read or the cache read is rejected.
\<close>

theorem getCurrentUser_sources_witness:
  "fst (getCurrentUser (fake [] [login_snapshot]) signed_in)
     = Inr (Some (spread [(''uid'', JStr (user_uid ann)), (''email'', email_val ann)] ann_doc))
   \<and> auth_currentUser (fake [] [login_snapshot])
        (remote (signed_in\<lparr>remote := (remote signed_in)\<lparr>live := None\<rparr>\<rparr>)) = None
   \<and> fst (getCurrentUser (fake [] [login_snapshot])
            (signed_in\<lparr>remote := (remote signed_in)\<lparr>live := None\<rparr>\<rparr>))
       = Inr (Some login_snapshot)
   \<and> fst (doc_get (fake [] [login_snapshot]) (user_uid ann)
            (remote (signed_in\<lparr>remote := (remote signed_in)\<lparr>docs := Map.empty\<rparr>\<rparr>)))
       = Inr None
   \<and> fst (getCurrentUser (fake [] [login_snapshot])
            (signed_in\<lparr>remote := (remote signed_in)\<lparr>docs := Map.empty\<rparr>\<rparr>))
       = Inr (Some login_snapshot)
   \<and> storage fresh USER_DATA_KEY = None
   \<and> fst (getCurrentUser (fake [] [login_snapshot]) fresh) = Inr None
   \<and> fst (doc_get (fake [''readProfile''] [login_snapshot]) (user_uid ann) (remote signed_in))
       = Inl BackendUnavailable
   \<and> fst (getCurrentUser (fake [''readProfile''] [login_snapshot]) signed_in) = Inr None
   \<and> storage_error (fake [''storage''] [login_snapshot]) (GetItem USER_DATA_KEY)
       = Some BackendUnavailable
   \<and> fst (getCurrentUser (fake [''storage''] [login_snapshot])
            (signed_in\<lparr>remote := (remote signed_in)\<lparr>live := None\<rparr>\<rparr>)) = Inr None"
proof -
  let ?E = "fake [] [login_snapshot]"
  let ?noread = "fake [''readProfile''] [login_snapshot]"
  let ?nostore = "fake [''storage''] [login_snapshot]"
  let ?out = "signed_in\<lparr>remote := (remote signed_in)\<lparr>live := None\<rparr>\<rparr>"
  let ?nodoc = "signed_in\<lparr>remote := (remote signed_in)\<lparr>docs := Map.empty\<rparr>\<rparr>"
  have snap: "cached_snapshot (fake down [login_snapshot]) (signed_in\<lparr>remote := b\<rparr>)
                = Some login_snapshot" for down b
    by (simp add: signed_in_eq cached_snapshot_def parse_known_def fake_def key_defs stringify_def)
  have ok: "storage_error ?E c = None" for c
    by (simp add: fake_def)
  have live: "auth_currentUser (fake down [login_snapshot]) (remote signed_in) = Some ann" for down
    by (simp add: signed_in_eq fake_def)
  have doc: "fst (doc_get ?E (user_uid ann) (remote signed_in)) = Inr (Some ann_doc)"
    by (simp add: signed_in_eq fake_defs ann_def)
  have c1: "fst (getCurrentUser ?E signed_in)
     = Inr (Some (spread [(''uid'', JStr (user_uid ann)), (''email'', email_val ann)] ann_doc))"
    using getCurrentUser_sources [of ?E signed_in] live doc by blast
  have out: "auth_currentUser (fake down [login_snapshot]) (remote ?out) = None" for down
    by (simp add: fake_def)
  have c2: "fst (getCurrentUser ?E ?out) = Inr (Some login_snapshot)"
    using getCurrentUser_sources [of ?E ?out] out ok snap [of "[]"] by simp
  have live': "auth_currentUser ?E (remote ?nodoc) = Some ann"
    by (simp add: signed_in_eq fake_def)
  have nodoc: "fst (doc_get ?E (user_uid ann) (remote ?nodoc)) = Inr None"
    by (simp add: fake_defs)
  have c3: "fst (getCurrentUser ?E ?nodoc) = Inr (Some login_snapshot)"
    using getCurrentUser_sources [of ?E ?nodoc] live' nodoc ok snap [of "[]"] by auto
  have nolive: "auth_currentUser ?E (remote fresh) = None"
    by (simp add: fresh_def empty_backend_def fake_def)
  have empty: "storage fresh USER_DATA_KEY = None"
    by (simp add: fresh_def)
  have c4: "fst (getCurrentUser ?E fresh) = Inr None"
    using getCurrentUser_sources [of ?E fresh] nolive ok empty by simp
  have down: "fst (doc_get ?noread (user_uid ann) (remote signed_in)) = Inl BackendUnavailable"
    by (simp add: fake_defs)
  have c5: "fst (getCurrentUser ?noread signed_in) = Inr None"
    using getCurrentUser_sources [of ?noread signed_in] live down by blast
  have rejected: "storage_error ?nostore (GetItem USER_DATA_KEY) = Some BackendUnavailable"
    by (simp add: fake_def)
  have c6: "fst (getCurrentUser ?nostore ?out) = Inr None"
    using getCurrentUser_sources [of ?nostore ?out] out rejected by simp
  show ?thesis
    using c1 out c2 nodoc c3 empty c4 down c5 rejected c6 by simp
qed

section \<open>register and login\<close>






section \<open>register followed by getCurrentUser\<close>

text \<open>
  C7, as the specification states it: after a successful \<^verbatim>\<open>register\<close>, the session that
  \<^verbatim>\<open>getCurrentUser\<close> returns has the profile fields that were passed. With the fields
  the registration screen passes this fails on the reference backend: the identity is
  live after registration, so the session is read from the profile document, in which
  \<^verbatim>\<open>createdAt\<close> is the server timestamp and not the client's value.
\<close>

theorem register_roundtrip_counterexample:
  "fst (register (fake [] []) ''a@x.com'' ''secret1'' ann_fields fresh) = Inr ann
   \<and> fst (getCurrentUser (fake [] [])
            (snd (register (fake [] []) ''a@x.com'' ''secret1'' ann_fields fresh)))
       = Inr (Some ann_session)
   \<and> get_prop ann_session ''createdAt'' = JTimestamp 1000
   \<and> get_prop ann_fields ''createdAt'' = JStr ''2024-01-01T00:00:00.000Z''"
  by (simp add: register_def getCurrentUser_def prog_defs fake_defs fresh_def empty_backend_def
      ann_def ann_fields_def ann_session_def register_doc_def or_else_def
      email_val_def key_defs)

text \<open>
  C7, amended: on the reference backend with every capability up, for all
  \<open>email\<close>, \<open>password\<close> and \<open>userData\<close>, a successful \<^verbatim>\<open>register\<close> followed by
  \<^verbatim>\<open>getCurrentUser\<close> yields the session
  \<^verbatim>\<open>{uid, email, name: userData.name || '', birthdate: userData.birthdate || null,
  diabetesType: userData.diabetesType || '', createdAt, lastLoginAt}\<close> with both
  timestamps set by the server. So \<^verbatim>\<open>name\<close>, \<^verbatim>\<open>birthdate\<close> and \<^verbatim>\<open>diabetesType\<close> equal
  those of \<open>userData\<close> when they are truthy there; its other properties are not in the
  session.
\<close>

theorem register_then_getCurrentUser:
  assumes "fst (register (fake [] known) email password userData w) = Inr u"
  shows "\<exists>session.
           fst (getCurrentUser (fake [] known)
                  (snd (register (fake [] known) email password userData w)))
             = Inr (Some session)
         \<and> session =
             [(''uid'', JStr (user_uid u)),
              (''email'', JStr email),
              (''name'', resolve (clock (remote w)) (or_else (get_prop userData ''name'') (JStr ''''))),
              (''birthdate'', resolve (clock (remote w)) (or_else (get_prop userData ''birthdate'') JNull)),
              (''diabetesType'',
                 resolve (clock (remote w)) (or_else (get_prop userData ''diabetesType'') (JStr ''''))),
              (''createdAt'', JTimestamp (clock (remote w))),
              (''lastLoginAt'', JTimestamp (clock (remote w)))]
         \<and> (\<forall>k \<in> {''name'', ''birthdate'', ''diabetesType''}.
               truthy (get_prop userData k) \<and> get_prop userData k \<noteq> JServerTimestamp
               \<longrightarrow> get_prop session k = get_prop userData k)"
  using assms
  by (auto simp: register_def getCurrentUser_def prog_defs fake_defs register_doc_def
      email_val_def resolve_or_else split: if_splits)

theorem register_then_getCurrentUser_witness:
  "fst (register (fake [] []) ''a@x.com'' ''secret1'' ann_fields fresh) = Inr ann
   \<and> fst (getCurrentUser (fake [] [])
            (snd (register (fake [] []) ''a@x.com'' ''secret1'' ann_fields fresh)))
       = Inr (Some ann_session)
   \<and> get_prop ann_session ''name'' = get_prop ann_fields ''name''
   \<and> get_prop ann_session ''diabetesType'' = get_prop ann_fields ''diabetesType''
   \<and> get_prop ann_session ''birthdate'' = JNull"
proof -
  have ok: "fst (register (fake [] []) ''a@x.com'' ''secret1'' ann_fields fresh) = Inr ann"
    by (simp add: register_def prog_defs fake_defs fresh_def empty_backend_def ann_def)
  have vals: "user_uid ann = ''uid-a@x.com''" "clock (remote fresh) = 1000"
      "get_prop ann_fields ''name'' = JStr ''Ann''"
      "get_prop ann_fields ''birthdate'' = JUndefined"
      "get_prop ann_fields ''diabetesType'' = JStr ''Type 1''"
    by (simp_all add: ann_def identity_of_def fresh_def empty_backend_def ann_fields_def)
  from register_then_getCurrentUser [OF ok]
  have "fst (getCurrentUser (fake [] [])
               (snd (register (fake [] []) ''a@x.com'' ''secret1'' ann_fields fresh)))
          = Inr (Some ann_session)"
    by (simp add: vals ann_session_def or_else_def resolve_def)
  with ok vals show ?thesis
    by (simp add: ann_session_def)
qed

section \<open>updateUserProfile\<close>

text \<open>Spreading an object with distinct keys: its properties win over those of the base.\<close>

lemma map_of_spread:
  "distinct (map fst src) \<Longrightarrow> map_of (spread base src) = map_of base ++ map_of src"
proof (induction src arbitrary: base)
  case Nil
  then show ?case by simp
next
  case (Cons p ps)
  obtain k v where p: "p = (k, v)"
    by (cases p)
  from Cons.prems p have fresh_key: "map_of ps k = None"
    by (simp add: map_of_eq_None_iff)
  from Cons.prems have "distinct (map fst ps)"
    by simp
  then have "map_of (spread (AList.update k v base) ps)
               = map_of (AList.update k v base) ++ map_of ps"
    by (rule Cons.IH)
  with fresh_key show ?case
    by (auto simp: p update_conv' map_add_def fun_eq_iff split: option.splits)
qed

lemma get_prop_absent: "k \<notin> fst ` set obj \<Longrightarrow> get_prop obj k = JUndefined"
proof -
  assume "k \<notin> fst ` set obj"
  then have "map_of obj k = None"
    by (simp add: map_of_eq_None_iff)
  then show ?thesis
    by (simp add: get_prop_def)
qed

lemma get_prop_spread:
  assumes "distinct (map fst src)"
  shows "get_prop (spread base src) k
           = (if k \<in> fst ` set src then get_prop src k else get_prop base k)"
proof (cases "map_of src k")
  case None
  then have "k \<notin> fst ` set src"
    by (simp add: map_of_eq_None_iff)
  with None assms show ?thesis
    by (simp add: get_prop_def map_of_spread map_add_def)
next
  case (Some v)
  then have "k \<in> fst ` set src"
    by (metis map_of_eq_None_iff option.distinct(1))
  with Some assms show ?thesis
    by (simp add: get_prop_def map_of_spread map_add_def)
qed

text \<open>
  C8, as the specification states it: with a live identity, the fields are merged into
  the cached session snapshot. The code merges them into what \<^verbatim>\<open>getCurrentUser()\<close>
  returns, which is the live profile read whenever the document exists, and writes
  that to the cache; what the cache held is then dropped. In the running example,
  after registration the cache holds the client's \<^verbatim>\<open>createdAt\<close> and no \<^verbatim>\<open>birthdate\<close>;
  after the update it holds the renamed live session, not the renamed cached snapshot.
\<close>

theorem updateUserProfile_drops_cached_snapshot_counterexample:
  "cached_snapshot (fake [] [register_snapshot]) registered = Some register_snapshot
   \<and> fst (updateUserProfile (fake [] [register_snapshot]) new_name registered) = Inr ()
   \<and> storage (snd (updateUserProfile (fake [] [register_snapshot]) new_name registered))
        USER_DATA_KEY = Some (stringify renamed_session)
   \<and> stringify renamed_session \<noteq> stringify (merge_stored (Some register_snapshot) new_name)
   \<and> get_prop renamed_session ''createdAt'' = JTimestamp 1000
   \<and> get_prop (merge_stored (Some register_snapshot) new_name) ''createdAt''
       = JStr ''2024-01-01T00:00:00.000Z''"
proof -
  have snap: "cached_snapshot (fake [] [register_snapshot]) registered = Some register_snapshot"
    by (simp add: registered_eq cached_snapshot_def parse_known_def fake_def key_defs
        stringify_def)
  have run: "updateUserProfile (fake [] [register_snapshot]) new_name registered
      = (Inr (),
         registered
           \<lparr>remote := (remote registered)
              \<lparr>docs := [''uid-a@x.com'' \<mapsto>
                  ann_doc [1 := (''name'', JStr ''Anna'')] @ [(''updatedAt'', JTimestamp 1000)]]\<rparr>,
            storage := [USER_DATA_KEY \<mapsto> stringify renamed_session],
            calls := calls registered @
              [DocUpdate ''uid-a@x.com'' (update_doc new_name),
               DocGet ''uid-a@x.com'',
               SetItem USER_DATA_KEY (stringify renamed_session)]\<rparr>)"
    by (simp add: updateUserProfile_def getCurrentUser_def update_doc_def merge_stored_def
        try_catch_rethrow prog_defs registered_eq fake_defs ann_def ann_doc_def new_name_def
        renamed_session_def email_val_def key_defs)
  have differ: "stringify renamed_session
                  \<noteq> stringify (merge_stored (Some register_snapshot) new_name)"
    by (simp add: stringify_def renamed_session_def register_snapshot_def new_name_def
        merge_stored_def List.map_filter_def quote_def dec.simps)
  have props: "get_prop renamed_session ''createdAt'' = JTimestamp 1000"
      "get_prop (merge_stored (Some register_snapshot) new_name) ''createdAt''
         = JStr ''2024-01-01T00:00:00.000Z''"
    by (simp_all add: renamed_session_def register_snapshot_def new_name_def merge_stored_def)
  show ?thesis
    using snap run differ props by simp
qed

text \<open>
  C8, amended: \<^verbatim>\<open>updateUserProfile\<close> requires a live identity; when none is present it
  fails with \<open>NotAuthenticated\<close> and changes nothing, remote or local. When one is
  present it writes \<^verbatim>\<open>{...userData, updatedAt: serverTimestamp}\<close> into the remote
  profile document, then takes the current session view from \<^verbatim>\<open>getCurrentUser()\<close>
  (the live profile read when the document exists, otherwise the cached snapshot,
  otherwise nothing), lays the fields over it and stores the result as the cached
  snapshot.
\<close>

theorem updateUserProfile_effect:
  "(auth_currentUser env (remote w) = None
      \<longrightarrow> updateUserProfile env userData w = (Inl NotAuthenticated, w))
   \<and> (\<forall>cu b1 session w2.
         auth_currentUser env (remote w) = Some cu
         \<and> doc_update env (user_uid cu) (update_doc userData) (remote w) = (Inr (), b1)
         \<and> getCurrentUser env
             (w\<lparr>remote := b1, calls := calls w @ [DocUpdate (user_uid cu) (update_doc userData)]\<rparr>)
             = (Inr session, w2)
         \<and> storage_error env
             (SetItem USER_DATA_KEY (JSON_stringify env (merge_stored session userData))) = None
       \<longrightarrow> updateUserProfile env userData w
             = (Inr (),
                w2\<lparr>storage := (storage w2)(USER_DATA_KEY \<mapsto>
                       JSON_stringify env (merge_stored session userData)),
                   calls := calls w2 @
                     [SetItem USER_DATA_KEY
                        (JSON_stringify env (merge_stored session userData))]\<rparr>))
   \<and> get_prop (update_doc userData) ''updatedAt'' = JServerTimestamp
   \<and> (distinct (map fst userData)
       \<longrightarrow> (\<forall>k. k \<noteq> ''updatedAt'' \<longrightarrow> get_prop (update_doc userData) k = get_prop userData k)
         \<and> (\<forall>session. \<forall>k \<in> fst ` set userData.
               get_prop (merge_stored session userData) k = get_prop userData k)
         \<and> (\<forall>view k. distinct (map fst view) \<and> k \<notin> fst ` set userData
               \<longrightarrow> get_prop (merge_stored (Some view) userData) k = get_prop view k))"
proof -
  have unauthenticated: "auth_currentUser env (remote w) = None
      \<longrightarrow> updateUserProfile env userData w = (Inl NotAuthenticated, w)"
    by (simp add: updateUserProfile_def try_catch_rethrow seq_def currentUser_now_def
        throw_def NotAuthenticated_def)
  have authenticated: "\<forall>cu b1 session w2.
         auth_currentUser env (remote w) = Some cu
         \<and> doc_update env (user_uid cu) (update_doc userData) (remote w) = (Inr (), b1)
         \<and> getCurrentUser env
             (w\<lparr>remote := b1, calls := calls w @ [DocUpdate (user_uid cu) (update_doc userData)]\<rparr>)
             = (Inr session, w2)
         \<and> storage_error env
             (SetItem USER_DATA_KEY (JSON_stringify env (merge_stored session userData))) = None
       \<longrightarrow> updateUserProfile env userData w
             = (Inr (),
                w2\<lparr>storage := (storage w2)(USER_DATA_KEY \<mapsto>
                       JSON_stringify env (merge_stored session userData)),
                   calls := calls w2 @
                     [SetItem USER_DATA_KEY
                        (JSON_stringify env (merge_stored session userData))]\<rparr>)"
    by (simp add: updateUserProfile_def try_catch_rethrow seq_def currentUser_now_def
        sdk_def setItem_def)
  have stamp: "get_prop (update_doc userData) ''updatedAt'' = JServerTimestamp"
    by (simp add: update_doc_def get_prop_def update_conv')
  have written: "get_prop (update_doc userData) k = get_prop userData k"
    if "distinct (map fst userData)" "k \<noteq> ''updatedAt''" for k
    using that
    by (simp add: update_doc_def get_prop_def update_conv' map_of_spread)
  have over: "get_prop (merge_stored session userData) k = get_prop userData k"
    if "distinct (map fst userData)" "k \<in> fst ` set userData" for session k
    using that by (simp add: merge_stored_def get_prop_spread)
  have under: "get_prop (merge_stored (Some view) userData) k = get_prop view k"
    if "distinct (map fst userData)" "distinct (map fst view)" "k \<notin> fst ` set userData"
    for view k
    using that by (simp add: merge_stored_def get_prop_spread get_prop_absent)
  have merged: "distinct (map fst userData)
       \<longrightarrow> (\<forall>k. k \<noteq> ''updatedAt'' \<longrightarrow> get_prop (update_doc userData) k = get_prop userData k)
         \<and> (\<forall>session. \<forall>k \<in> fst ` set userData.
               get_prop (merge_stored session userData) k = get_prop userData k)
         \<and> (\<forall>view k. distinct (map fst view) \<and> k \<notin> fst ` set userData
               \<longrightarrow> get_prop (merge_stored (Some view) userData) k = get_prop view k)"
    using written over under by (intro impI conjI allI ballI) auto
  show ?thesis
    by (rule conjI [OF unauthenticated conjI [OF authenticated conjI [OF stamp merged]]])
qed

text \<open>
  In the running example: on a fresh device nobody is signed in and nothing changes;
  after registration Ann renames herself, the document gets the new name and an update
  time, and the cache gets the renamed live session.
\<close>

theorem updateUserProfile_effect_witness:
  "auth_currentUser (fake [] []) (remote fresh) = None
   \<and> updateUserProfile (fake [] []) new_name fresh = (Inl NotAuthenticated, fresh)
   \<and> auth_currentUser (fake [] [register_snapshot]) (remote registered) = Some ann
   \<and> fst (doc_update (fake [] [register_snapshot]) (user_uid ann) (update_doc new_name)
            (remote registered)) = Inr ()
   \<and> fst (updateUserProfile (fake [] [register_snapshot]) new_name registered) = Inr ()
   \<and> storage (snd (updateUserProfile (fake [] [register_snapshot]) new_name registered))
        USER_DATA_KEY = Some (stringify (merge_stored (Some renamed_session) new_name))
   \<and> distinct (map fst new_name)
   \<and> get_prop (update_doc new_name) ''name'' = JStr ''Anna''
   \<and> get_prop (update_doc new_name) ''updatedAt'' = JServerTimestamp
   \<and> get_prop (merge_stored (Some renamed_session) new_name) ''name'' = JStr ''Anna''
   \<and> get_prop (merge_stored (Some renamed_session) new_name) ''email'' = JStr ''a@x.com''"
proof -
  let ?E = "fake [] [register_snapshot]"
  let ?b1 = "(remote registered)
               \<lparr>docs := [''uid-a@x.com'' \<mapsto>
                   ann_doc [1 := (''name'', JStr ''Anna'')] @ [(''updatedAt'', JTimestamp 1000)]]\<rparr>"
  let ?w1 = "registered\<lparr>remote := ?b1,
               calls := calls registered @ [DocUpdate (user_uid ann) (update_doc new_name)]\<rparr>"
  let ?w2 = "?w1\<lparr>calls := calls ?w1 @ [DocGet ''uid-a@x.com'']\<rparr>"
  let ?text = "JSON_stringify ?E (merge_stored (Some renamed_session) new_name)"
  have nobody: "auth_currentUser (fake [] []) (remote fresh) = None"
    by (simp add: fake_def fresh_def empty_backend_def)
  have refused: "updateUserProfile (fake [] []) new_name fresh = (Inl NotAuthenticated, fresh)"
    by (rule mp [OF updateUserProfile_effect [THEN conjunct1] nobody])
  have somebody: "auth_currentUser ?E (remote registered) = Some ann"
    by (simp add: fake_def registered_eq)
  have updated: "doc_update ?E (user_uid ann) (update_doc new_name) (remote registered)
                   = (Inr (), ?b1)"
    by (simp add: fake_defs registered_eq ann_def ann_doc_def update_doc_def new_name_def)
  have view: "getCurrentUser ?E ?w1 = (Inr (Some renamed_session), ?w2)"
    by (simp add: getCurrentUser_def prog_defs fake_defs registered_eq ann_def ann_doc_def
        renamed_session_def email_val_def)
  have accepted: "storage_error ?E (SetItem USER_DATA_KEY ?text) = None"
    by (simp add: fake_def)
  have finished: "updateUserProfile ?E new_name registered
      = (Inr (),
         ?w2\<lparr>storage := (storage ?w2)(USER_DATA_KEY \<mapsto> ?text),
             calls := calls ?w2 @ [SetItem USER_DATA_KEY ?text]\<rparr>)"
    by (rule updateUserProfile_effect
          [THEN conjunct2, THEN conjunct1, rule_format,
           OF conjI [OF somebody conjI [OF updated conjI [OF view accepted]]]])
  have keys: "distinct (map fst new_name)" "distinct (map fst renamed_session)"
      "''name'' \<in> fst ` set new_name" "''email'' \<notin> fst ` set new_name"
    by (simp_all add: new_name_def renamed_session_def)
  have named: "get_prop (update_doc new_name) ''name'' = JStr ''Anna''"
      "get_prop (merge_stored (Some renamed_session) new_name) ''name'' = JStr ''Anna''"
      "get_prop (merge_stored (Some renamed_session) new_name) ''email'' = JStr ''a@x.com''"
    by (simp_all add: update_doc_def merge_stored_def new_name_def renamed_session_def)
  have stamped: "get_prop (update_doc new_name) ''updatedAt'' = JServerTimestamp"
    by (rule updateUserProfile_effect [THEN conjunct2, THEN conjunct2, THEN conjunct1])
  show ?thesis
    using nobody refused somebody updated finished keys named stamped
    by (simp add: fake_def)
qed

section \<open>The signal that gates navigation\<close>

text \<open>The provider operations that pass no update keep \<open>currentUser\<close> as it is.\<close>

lemma run_op_keeps_currentUser:
  "currentUser (fst (snd (run_op m (\<lambda>x c. c) (c, w)))) = currentUser c"
  by (simp add: run_op_def split: prod.splits sum.splits)

text \<open>
  \<^verbatim>\<open>getCurrentUser\<close> reads the remote state and the user-data entry only, so its
  answer on two worlds that agree on these is the same.
\<close>

lemma getCurrentUser_reads:
  assumes "remote w' = remote w" and "storage w' USER_DATA_KEY = storage w USER_DATA_KEY"
  shows "fst (getCurrentUser env w') = fst (getCurrentUser env w)"
proof (cases "auth_currentUser env (remote w)")
  case None
  with assms show ?thesis
    by (simp add: getCurrentUser_def prog_defs split: option.splits sum.splits)
next
  case (Some cu)
  obtain r b where got: "doc_get env (user_uid cu) (remote w) = (r, b)"
    by (cases "doc_get env (user_uid cu) (remote w)")
  from assms Some got show ?thesis
    by (cases r) (simp_all add: getCurrentUser_def prog_defs split: option.splits sum.splits)
qed

lemma updateUserProfile_reads:
  assumes "remote w' = remote w" and "storage w' USER_DATA_KEY = storage w USER_DATA_KEY"
  shows "fst (updateUserProfile env userData w') = fst (updateUserProfile env userData w)"
proof (cases "auth_currentUser env (remote w)")
  case None
  with assms show ?thesis
    by (simp add: updateUserProfile_def try_catch_rethrow seq_def currentUser_now_def throw_def)
next
  case (Some cu)
  obtain r b where upd: "doc_update env (user_uid cu) (update_doc userData) (remote w) = (r, b)"
    by (cases "doc_update env (user_uid cu) (update_doc userData) (remote w)")
  let ?c = "DocUpdate (user_uid cu) (update_doc userData)"
  let ?w1 = "w\<lparr>remote := b, calls := calls w @ [?c]\<rparr>"
  let ?w1' = "w'\<lparr>remote := b, calls := calls w' @ [?c]\<rparr>"
  have same: "fst (getCurrentUser env ?w1') = fst (getCurrentUser env ?w1)"
    using assms by (intro getCurrentUser_reads) simp_all
  obtain s w2 where view: "getCurrentUser env ?w1 = (s, w2)"
    by (cases "getCurrentUser env ?w1")
  obtain s' w2' where view': "getCurrentUser env ?w1' = (s', w2')"
    by (cases "getCurrentUser env ?w1'")
  from same view view' have "s' = s"
    by simp
  with assms Some upd view view' show ?thesis
    by (cases r; cases s)
       (simp_all add: updateUserProfile_def try_catch_rethrow seq_def currentUser_now_def
          sdk_def setItem_def split: option.splits)
qed

text \<open>The running example after the callback that could not read the profile.\<close>

lemma after_failed_read_eq:
  "after_failed_read
     = (\<lparr>currentUser = None, loading = False, error = None\<rparr>,
        registered\<lparr>calls := calls registered @ [DocGet ''uid-a@x.com'']\<rparr>)"
  by (simp add: after_failed_read_def authStateChanged_def getCurrentUser_def prog_defs
      fake_defs registered_eq initial_state_def ann_def)

text \<open>
  C10, as stated: the \<open>currentUser\<close> state of the provider is set only by the
  identity-change callback. It is also set by \<^verbatim>\<open>updateProfile\<close>, after the service
  call succeeded. In the running example the callback reported Ann while the profile
  read was down, which left \<open>currentUser\<close> at \<^verbatim>\<open>null\<close> and the navigator on the
  authentication screens; a later \<^verbatim>\<open>updateProfile\<close> then sets \<open>currentUser\<close> and the
  navigator shows the application screens, with no callback in between.
\<close>

theorem currentUser_set_by_updateProfile_counterexample:
  "currentUser (fst after_failed_read) = None
   \<and> AppNavigator False (fst after_failed_read) = AuthStack
   \<and> currentUser (fst (snd (ctx_updateProfile (fake [] []) new_name after_failed_read)))
       = Some new_name
   \<and> AppNavigator False (fst (snd (ctx_updateProfile (fake [] []) new_name after_failed_read)))
       = AppStack"
proof -
  have ok: "fst (updateUserProfile (fake [] []) new_name
                  (registered\<lparr>calls := calls registered @ [DocGet ''uid-a@x.com'']\<rparr>)) = Inr ()"
    by (simp add: updateUserProfile_def getCurrentUser_def try_catch_rethrow prog_defs
        fake_defs registered_eq ann_def)
  then obtain w2 where run: "updateUserProfile (fake [] []) new_name
      (registered\<lparr>calls := calls registered @ [DocGet ''uid-a@x.com'']\<rparr>) = (Inr (), w2)"
    by (cases "updateUserProfile (fake [] []) new_name
                 (registered\<lparr>calls := calls registered @ [DocGet ''uid-a@x.com'']\<rparr>)") auto
  have merged: "merge_stored None new_name = new_name"
    by (simp add: merge_stored_def new_name_def)
  show ?thesis
    by (simp add: after_failed_read_eq run ctx_updateProfile_def run_op_def AppNavigator_def
        merged)
qed

text \<open>
  C10, amended: the navigator shows the application screens exactly when it is not
  loading and the \<open>currentUser\<close> state of the provider is non-null, and the provider's
  \<^verbatim>\<open>isAuthenticated()\<close> is true exactly when that state is non-null. The state is set
  by the identity-change callback (to \<^verbatim>\<open>null\<close> when the provider reports no identity,
  otherwise to what \<^verbatim>\<open>getCurrentUser()\<close> returns) and by a successful \<^verbatim>\<open>updateProfile\<close>
  (to the previous state with the fields laid over it); \<^verbatim>\<open>register\<close>, \<^verbatim>\<open>login\<close>,
  \<^verbatim>\<open>logout\<close>, \<^verbatim>\<open>resetPassword\<close>, \<^verbatim>\<open>changePassword\<close> and a failed \<^verbatim>\<open>updateProfile\<close>
  leave it as it is. The cached session token has no part in it: with any other token
  in the cache, or none, the state comes out the same.
\<close>

theorem navigation_signal_sources:
  "(AppNavigator initializing c = AppStack)
     = (\<not> initializing \<and> \<not> loading c \<and> currentUser c \<noteq> None)
   \<and> ctx_isAuthenticated c = (currentUser c \<noteq> None)
   \<and> currentUser (fst (snd (ctx_register env email password userData (c, w)))) = currentUser c
   \<and> currentUser (fst (snd (ctx_login env email password (c, w)))) = currentUser c
   \<and> currentUser (fst (snd (ctx_logout env (c, w)))) = currentUser c
   \<and> currentUser (fst (snd (ctx_resetPassword env email (c, w)))) = currentUser c
   \<and> currentUser (fst (snd (ctx_changePassword env password newPassword (c, w)))) = currentUser c
   \<and> currentUser (fst (authStateChanged env None (c, w))) = None
   \<and> fst (getCurrentUser env w) = Inr (currentUser (fst (authStateChanged env (Some u) (c, w))))
   \<and> currentUser (fst (snd (ctx_updateProfile env userData (c, w))))
       = (case fst (updateUserProfile env userData w) of
            Inl e \<Rightarrow> currentUser c
          | Inr x \<Rightarrow> Some (merge_stored (currentUser c) userData))
   \<and> currentUser (fst (authStateChanged env user (c, set_token t w)))
       = currentUser (fst (authStateChanged env user (c, w)))
   \<and> currentUser (fst (snd (ctx_updateProfile env userData (c, set_token t w))))
       = currentUser (fst (snd (ctx_updateProfile env userData (c, w))))"
proof -
  have gate: "(AppNavigator initializing c = AppStack)
                = (\<not> initializing \<and> \<not> loading c \<and> currentUser c \<noteq> None)"
    by (simp add: AppNavigator_def)
  have flag: "ctx_isAuthenticated c = (currentUser c \<noteq> None)"
    by (simp add: ctx_isAuthenticated_def)
  have kept: "currentUser (fst (snd (ctx_register env email password userData (c, w)))) = currentUser c"
      "currentUser (fst (snd (ctx_login env email password (c, w)))) = currentUser c"
      "currentUser (fst (snd (ctx_logout env (c, w)))) = currentUser c"
      "currentUser (fst (snd (ctx_resetPassword env email (c, w)))) = currentUser c"
      "currentUser (fst (snd (ctx_changePassword env password newPassword (c, w)))) = currentUser c"
    by (simp_all add: ctx_register_def ctx_login_def ctx_logout_def ctx_resetPassword_def
        ctx_changePassword_def run_op_keeps_currentUser)
  have signed_out: "currentUser (fst (authStateChanged env None (c, w))) = None"
    by (simp add: authStateChanged_def)
  obtain r where answer: "fst (getCurrentUser env w) = Inr r"
    using getCurrentUser_returns by blast
  then have signed_in: "fst (getCurrentUser env w)
                          = Inr (currentUser (fst (authStateChanged env (Some u) (c, w))))"
    by (cases "getCurrentUser env w") (simp add: authStateChanged_def)
  have updated: "currentUser (fst (snd (ctx_updateProfile env userData (c, w))))
       = (case fst (updateUserProfile env userData w) of
            Inl e \<Rightarrow> currentUser c
          | Inr x \<Rightarrow> Some (merge_stored (currentUser c) userData))" for w :: "'a world"
    by (cases "updateUserProfile env userData w")
       (simp add: ctx_updateProfile_def run_op_def split: sum.splits)
  have agree: "remote (set_token t w) = remote w"
      "storage (set_token t w) USER_DATA_KEY = storage w USER_DATA_KEY"
    using keys_differ by (simp_all add: set_token_def)
  have view: "fst (getCurrentUser env (set_token t w)) = fst (getCurrentUser env w)"
    using agree by (rule getCurrentUser_reads)
  have callback: "currentUser (fst (authStateChanged env user (c, set_token t w)))
                    = currentUser (fst (authStateChanged env user (c, w)))"
  proof (cases user)
    case None
    then show ?thesis
      by (simp add: authStateChanged_def)
  next
    case (Some v)
    with view show ?thesis
      by (cases "getCurrentUser env w"; cases "getCurrentUser env (set_token t w)")
         (auto simp: authStateChanged_def split: sum.splits)
  qed
  have "fst (updateUserProfile env userData (set_token t w))
          = fst (updateUserProfile env userData w)"
    using agree by (rule updateUserProfile_reads)
  then have update: "currentUser (fst (snd (ctx_updateProfile env userData (c, set_token t w))))
                       = currentUser (fst (snd (ctx_updateProfile env userData (c, w))))"
    by (simp add: updated)
  show ?thesis
    by (intro conjI gate flag kept signed_out signed_in updated callback update)
qed

text \<open>
  In the running example, after the callback that could not read the profile: the
  navigator is on the authentication screens; a \<^verbatim>\<open>login\<close> then caches a session token
  and still leaves \<open>currentUser\<close> at \<^verbatim>\<open>null\<close>; a callback that can read the profile
  sets the session, whatever token the cache holds.
\<close>

theorem navigation_signal_sources_witness:
  "AppNavigator False (fst after_failed_read) \<noteq> AppStack
   \<and> \<not> ctx_isAuthenticated (fst after_failed_read)
   \<and> currentUser (fst (snd (ctx_login (fake [] []) ''a@x.com'' ''secret1'' after_failed_read)))
       = None
   \<and> storage (snd (snd (ctx_login (fake [] []) ''a@x.com'' ''secret1'' after_failed_read)))
        AUTH_TOKEN_KEY = Some ''token-uid-a@x.com''
   \<and> currentUser (fst (authStateChanged (fake [] []) (Some ann) (initial_state, signed_in)))
       = Some ann_session
   \<and> currentUser (fst (authStateChanged (fake [] []) (Some ann)
                          (initial_state, set_token None signed_in)))
       = Some ann_session"
proof -
  note facts = navigation_signal_sources
    [where c = "fst after_failed_read" and w = "snd after_failed_read" and env = "fake [] []"
       and initializing = False and email = "''a@x.com''" and password = "''secret1''"]
  have gate: "AppNavigator False (fst after_failed_read) \<noteq> AppStack"
    using facts [THEN conjunct1] by (simp add: after_failed_read_eq)
  have flag: "\<not> ctx_isAuthenticated (fst after_failed_read)"
    using facts [THEN conjunct2, THEN conjunct1] by (simp add: after_failed_read_eq)
  have login: "currentUser (fst (snd (ctx_login (fake [] []) ''a@x.com'' ''secret1''
                                        after_failed_read))) = None"
    using facts [THEN conjunct2, THEN conjunct2, THEN conjunct2, THEN conjunct1]
    by (simp add: after_failed_read_eq)
  have token: "storage (snd (snd (ctx_login (fake [] []) ''a@x.com'' ''secret1''
                                     after_failed_read))) AUTH_TOKEN_KEY
                 = Some ''token-uid-a@x.com''"
    by (simp add: after_failed_read_eq ctx_login_def run_op_def login_def try_catch_rethrow
        prog_defs fake_defs registered_eq ann_def ann_doc_def email_val_def key_defs)
  have session: "fst (getCurrentUser (fake [] []) signed_in) = Inr (Some ann_session)"
    by (simp add: getCurrentUser_def prog_defs fake_defs signed_in_eq ann_def ann_doc_def
        ann_session_def email_val_def)
  note live = navigation_signal_sources
    [where c = initial_state and w = signed_in and env = "fake [] []" and u = ann
       and user = "Some ann" and t = None]
  have callback: "currentUser (fst (authStateChanged (fake [] []) (Some ann)
                                      (initial_state, signed_in))) = Some ann_session"
    using live [THEN conjunct2, THEN conjunct2, THEN conjunct2, THEN conjunct2, THEN conjunct2,
                THEN conjunct2, THEN conjunct2, THEN conjunct2, THEN conjunct1] session
    by simp
  have other_token: "currentUser (fst (authStateChanged (fake [] []) (Some ann)
                                         (initial_state, set_token None signed_in)))
                       = Some ann_session"
    using live [THEN conjunct2, THEN conjunct2, THEN conjunct2, THEN conjunct2, THEN conjunct2,
                THEN conjunct2, THEN conjunct2, THEN conjunct2, THEN conjunct2, THEN conjunct2,
                THEN conjunct1] callback
    by simp
  show ?thesis
    using gate flag login token callback other_token by simp
qed

end
